theory Spec2Isabelle
  imports Main "HOL-Library.Word"
begin

section \<open>Python values and library calls used by \<open>manage_repos.py\<close>\<close>

text \<open>
  Python \<open>str\<close> values are modelled as \<open>string\<close>, that is, as texts whose code points
  are below 256; texts with other code points (among them lone surrogates, which
  \<open>str.encode\<close> refuses) are outside the model. Python \<open>bytes\<close> are lists of 8-bit
  words. A value that may be \<open>None\<close> is an \<open>option\<close>.
\<close>

type_synonym byte = "8 word"
type_synonym bytes = "byte list"

text \<open>
  The exceptions the script can raise. \<open>HTTPError\<close> (from \<open>raise_for_status\<close>) and
  \<open>ConnectionError\<close> (from the transport) are the subclasses of
  \<open>requests.exceptions.RequestException\<close> that occur; the others are not.
  \<open>BinasciiError\<close> is \<open>binascii.Error\<close>, \<open>CryptoValueError\<close> is
  \<open>nacl.exceptions.ValueError\<close> (a key of the wrong length) and \<open>NaclRuntimeError\<close> is
  \<open>nacl.exceptions.RuntimeError\<close> (libsodium refuses to seal).
\<close>

datatype exn =
    HTTPError nat
  | ConnectionError
  | ValueError
  | FileNotFoundError
  | KeyError string
  | AttributeError
  | BinasciiError
  | CryptoValueError
  | NaclRuntimeError

fun is_RequestException :: "exn \<Rightarrow> bool" where
  "is_RequestException (HTTPError code) = True"
| "is_RequestException ConnectionError = True"
| "is_RequestException e = False"

subsection \<open>\<open>str.encode('utf-8')\<close>\<close>

definition utf8_char :: "char \<Rightarrow> bytes" where
  "utf8_char c =
     (let n = (of_char c :: nat)
      in if n < 128 then [of_nat n] else [of_nat (192 + n div 64), of_nat (128 + n mod 64)])"

definition encode_utf8 :: "string \<Rightarrow> bytes" where
  "encode_utf8 s = concat (map utf8_char s)"

subsection \<open>\<open>base64.b64encode\<close> and \<open>base64.b64decode\<close>\<close>

definition table_b2a_base64 :: string where
  "table_b2a_base64 = ''ABCDEFGHIJKLMNOPQRSTUVWXYZabcdefghijklmnopqrstuvwxyz0123456789+/''"

definition b2a :: "nat \<Rightarrow> char" where
  "b2a n = table_b2a_base64 ! n"

text \<open>
  \<open>base64.b64encode(data).decode('utf-8')\<close>: three bytes become four characters of the
  alphabet, and a last group of one or two bytes is padded with \<open>=\<close>. The output is
  ASCII, so reading it back as \<open>str\<close> cannot fail and the two calls are one function here.
\<close>

fun b64encode :: "bytes \<Rightarrow> string" where
  "b64encode [] = []"
| "b64encode [a] =
     [b2a (unat a div 4), b2a (unat a mod 4 * 16), CHR ''='', CHR ''='']"
| "b64encode [a, b] =
     [b2a (unat a div 4), b2a (unat a mod 4 * 16 + unat b div 16),
      b2a (unat b mod 16 * 4), CHR ''='']"
| "b64encode (a # b # c # rest) =
     [b2a (unat a div 4), b2a (unat a mod 4 * 16 + unat b div 16),
      b2a (unat b mod 16 * 4 + unat c div 64), b2a (unat c mod 64)] @ b64encode rest"

text \<open>The decoding table: the value of an alphabet character, \<open>None\<close> for any other byte.\<close>

definition table_a2b_base64 :: "byte \<Rightarrow> nat option" where
  "table_a2b_base64 ch =
     (let n = unat ch
      in if 65 \<le> n \<and> n \<le> 90 then Some (n - 65)
         else if 97 \<le> n \<and> n \<le> 122 then Some (n - 71)
         else if 48 \<le> n \<and> n \<le> 57 then Some (n + 4)
         else if n = 43 then Some 62
         else if n = 47 then Some 63
         else None)"

definition emit :: "nat \<Rightarrow> exn + bytes \<Rightarrow> exn + bytes" where
  "emit v r = (case r of Inl e \<Rightarrow> Inl e | Inr bs \<Rightarrow> Inr (of_nat v # bs))"

text \<open>
  \<open>base64.b64decode(data)\<close> with \<open>validate=False\<close>, which is what PyNaCl's
  \<open>Base64Encoder.decode\<close> calls; the loop of \<open>binascii.a2b_base64\<close> in its
  non-strict mode. \<open>quad_pos\<close> is the position in the current group of four,
  \<open>leftchar\<close> the bits not yet written, \<open>pads\<close> the padding characters counted
  since the last data character. Bytes outside the alphabet are skipped; a completed
  padding ends the input; data that stops inside a group is an error.
\<close>

fun a2b_base64 :: "nat \<Rightarrow> nat \<Rightarrow> nat \<Rightarrow> bytes \<Rightarrow> exn + bytes" where
  "a2b_base64 quad_pos leftchar pads [] =
     (if quad_pos \<noteq> 0 then Inl BinasciiError else Inr [])"
| "a2b_base64 quad_pos leftchar pads (this_ch # rest) =
     (if this_ch = 61 then
        (if quad_pos \<ge> 2 then
           (if quad_pos + (pads + 1) \<ge> 4 then Inr []
            else a2b_base64 quad_pos leftchar (pads + 1) rest)
         else a2b_base64 quad_pos leftchar pads rest)
      else
        (case table_a2b_base64 this_ch of
           None \<Rightarrow> a2b_base64 quad_pos leftchar pads rest
         | Some v \<Rightarrow>
             if quad_pos = 0 then a2b_base64 1 v 0 rest
             else if quad_pos = 1 then
               emit (leftchar * 4 + v div 16) (a2b_base64 2 (v mod 16) 0 rest)
             else if quad_pos = 2 then
               emit (leftchar * 16 + v div 4) (a2b_base64 3 (v mod 4) 0 rest)
             else
               emit (leftchar * 64 + v) (a2b_base64 0 0 0 rest)))"

definition b64decode :: "bytes \<Rightarrow> exn + bytes" where
  "b64decode data = a2b_base64 0 0 0 data"

subsection \<open>The padding loop of \<open>encrypt\<close>\<close>

text \<open>
  \<^verbatim>\<open>while len(public_key) % 4 != 0: public_key += '='\<close>
\<close>

function pad_key :: "string \<Rightarrow> string" where
  "pad_key public_key =
     (if length public_key mod 4 \<noteq> 0 then pad_key (public_key @ ''='') else public_key)"
  by pat_completeness auto
termination
proof (relation "measure (\<lambda>k. (4 - length k mod 4) mod 4)")
  show "wf (measure (\<lambda>k::string. (4 - length k mod 4) mod 4))"
    by simp
next
  fix public_key :: string
  assume "length public_key mod 4 \<noteq> 0"
  moreover have "length public_key mod 4 < 4"
    by simp
  ultimately have "length public_key mod 4 = 1 \<or> length public_key mod 4 = 2
      \<or> length public_key mod 4 = 3"
    by linarith
  then show "(public_key @ ''='', public_key) \<in> measure (\<lambda>k. (4 - length k mod 4) mod 4)"
    by (auto simp: mod_Suc)
qed

declare pad_key.simps [simp del]

section \<open>The remote API, the local files and the process environment\<close>

datatype http_method = GET | POST | PUT

datatype json = JStr string | JBool bool

text \<open>
  One call of \<open>requests.get\<close>, \<open>requests.post\<close> or \<open>requests.put\<close>: the method, the URL,
  the headers and the \<open>json=\<close> payload (empty for \<open>get\<close>).
\<close>

record request =
  http_method :: http_method
  url :: string
  headers :: "(string \<times> string) list"
  payload :: "(string \<times> json) list"

text \<open>
  What the call gives back: no response at all (the transport raises a
  \<open>ConnectionError\<close>), or a status code and the JSON object of the body.
\<close>

datatype response = NoResponse | Response nat "(string \<times> string) list"

text \<open>
  Everything outside the script: the two environment variables (\<open>None\<close> when unset),
  the text files of the working directory, the remote platform (its answer may depend on
  the calls made before), and libsodium's sealed box. The first argument of the sealed box
  numbers its calls so far and stands for the fresh randomness of each one; the result is
  \<open>None\<close> when libsodium refuses the key (a key of small order, such as 32 zero
  bytes), in which case PyNaCl raises its \<open>RuntimeError\<close>.
\<close>

record env =
  ORG_NAME :: "string option"
  GITHUB_TOKEN :: "string option"
  files :: "string \<Rightarrow> string option"
  remote :: "(request \<times> response) list \<Rightarrow> request \<Rightarrow> response"
  crypto_box_seal :: "nat \<Rightarrow> bytes \<Rightarrow> bytes \<Rightarrow> bytes option"

text \<open>
  The effects of a run: the remote calls made so far, each with its response, in order, and
  the number of calls of the sealed box.
\<close>

record state =
  exchanges :: "(request \<times> response) list"
  sealed :: nat

type_synonym 'a prog = "state \<Rightarrow> (exn + 'a) \<times> state"

definition ret :: "'a \<Rightarrow> 'a prog" where
  "ret x st = (Inr x, st)"

definition raise :: "exn \<Rightarrow> 'a prog" where
  "raise e st = (Inl e, st)"

definition lift :: "exn + 'a \<Rightarrow> 'a prog" where
  "lift r st = (r, st)"

definition then_do :: "'a prog \<Rightarrow> ('a \<Rightarrow> 'b prog) \<Rightarrow> 'b prog" where
  "then_do m f st = (case m st of (Inl e, st') \<Rightarrow> (Inl e, st') | (Inr x, st') \<Rightarrow> f x st')"

text \<open>An f-string field: \<open>None\<close> is formatted as the text \<open>None\<close>.\<close>

definition fmt :: "string option \<Rightarrow> string" where
  "fmt v = (case v of None \<Rightarrow> ''None'' | Some s \<Rightarrow> s)"

definition GITHUB_API_URL :: string where
  "GITHUB_API_URL = ''https://api.github.com''"

definition HEADERS :: "env \<Rightarrow> (string \<times> string) list" where
  "HEADERS env =
     [(''Authorization'', ''token '' @ fmt (GITHUB_TOKEN env)),
      (''Accept'', ''application/vnd.github.v3+json'')]"

text \<open>\<open>response.raise_for_status()\<close>: an \<open>HTTPError\<close> for the codes 400 to 599.\<close>

definition raise_for_status :: "response \<Rightarrow> exn + (string \<times> string) list" where
  "raise_for_status rsp =
     (case rsp of
        NoResponse \<Rightarrow> Inl ConnectionError
      | Response code body \<Rightarrow>
          if 400 \<le> code \<and> code < 600 then Inl (HTTPError code) else Inr body)"

text \<open>
  A call of \<open>requests\<close> followed by \<open>raise_for_status\<close>. The call is recorded whether
  it succeeds or not.
\<close>

definition call :: "env \<Rightarrow> http_method \<Rightarrow> string \<Rightarrow> (string \<times> json) list
    \<Rightarrow> (string \<times> string) list prog" where
  "call env m u p st =
     (let rq = \<lparr>http_method = m, url = u, headers = HEADERS env, payload = p\<rparr>;
          rsp = remote env (exchanges st) rq
      in (raise_for_status rsp, st\<lparr>exchanges := exchanges st @ [(rq, rsp)]\<rparr>))"

section \<open>The functions of \<open>manage_repos.py\<close>\<close>

definition create_repo :: "env \<Rightarrow> string \<Rightarrow> unit prog" where
  "create_repo env rname =
     then_do (call env POST (GITHUB_API_URL @ ''/orgs/'' @ fmt (ORG_NAME env) @ ''/repos'')
                [(''name'', JStr rname), (''private'', JBool True)])
       (\<lambda>_. ret ())"

definition add_collaborator :: "env \<Rightarrow> string \<Rightarrow> string \<Rightarrow> unit prog" where
  "add_collaborator env rname user =
     then_do (call env PUT (GITHUB_API_URL @ ''/repos/'' @ fmt (ORG_NAME env) @ ''/'' @ rname
                  @ ''/collaborators/'' @ user)
                [(''permission'', JStr ''push'')])
       (\<lambda>_. ret ())"

definition read_pipeline_file :: "env \<Rightarrow> string \<Rightarrow> exn + string" where
  "read_pipeline_file env ptype =
     (let file_path = ptype @ ''.yml''
      in case files env file_path of
           Some content \<Rightarrow> Inr content
         | None \<Rightarrow> Inl FileNotFoundError)"

definition create_pipeline :: "env \<Rightarrow> string \<Rightarrow> string option \<Rightarrow> unit prog" where
  "create_pipeline env rname ptype_opt =
     (case ptype_opt of
        None \<Rightarrow> raise ValueError
      | Some ptype \<Rightarrow>
          then_do (lift (read_pipeline_file env ptype)) (\<lambda>content.
          let encoded_content = b64encode (encode_utf8 content)
          in then_do (call env PUT (GITHUB_API_URL @ ''/repos/'' @ fmt (ORG_NAME env) @ ''/''
                          @ rname @ ''/contents/.github/workflows/'' @ ptype @ ''.yml'')
                        [(''message'', JStr (''Add '' @ ptype @ '' pipeline'')),
                         (''content'', JStr encoded_content),
                         (''branch'', JStr ''main'')])
               (\<lambda>_. ret ())))"

definition get_public_key :: "env \<Rightarrow> string \<Rightarrow> (string \<times> string) list prog" where
  "get_public_key env rname =
     call env GET (GITHUB_API_URL @ ''/repos/'' @ fmt (ORG_NAME env) @ ''/'' @ rname
                     @ ''/actions/secrets/public-key'') []"

text \<open>
  \<open>PublicKey(data, encoder=Base64Encoder())\<close>: the data is decoded, and a key that is not
  32 bytes long is refused.
\<close>

definition PublicKey :: "bytes \<Rightarrow> exn + bytes" where
  "PublicKey data =
     (case b64decode data of
        Inl e \<Rightarrow> Inl e
      | Inr raw \<Rightarrow> if length raw \<noteq> 32 then Inl CryptoValueError else Inr raw)"

text \<open>
  The part of \<open>encrypt\<close> after the key is loaded: encode the value (a value that is
  \<open>None\<close> has no \<open>encode\<close>), seal it, which libsodium may refuse, and encode the box.
\<close>

definition seal_value :: "env \<Rightarrow> bytes \<Rightarrow> string option \<Rightarrow> string prog" where
  "seal_value env pk secret_value =
     (case secret_value of
        None \<Rightarrow> raise AttributeError
      | Some v \<Rightarrow>
          (\<lambda>st. (case crypto_box_seal env (sealed st) pk (encode_utf8 v) of
                   None \<Rightarrow> Inl NaclRuntimeError
                 | Some encrypted \<Rightarrow> Inr (b64encode encrypted),
                 st\<lparr>sealed := sealed st + 1\<rparr>)))"

definition encrypt :: "env \<Rightarrow> string \<Rightarrow> string option \<Rightarrow> string prog" where
  "encrypt env public_key secret_value =
     then_do (lift (PublicKey (encode_utf8 (pad_key public_key))))
       (\<lambda>pk. seal_value env pk secret_value)"

text \<open>The loop of \<open>set_repo_secrets\<close> over the items of the dictionary, in insertion order.\<close>

fun set_each_secret :: "env \<Rightarrow> string \<Rightarrow> (string \<times> string) list \<Rightarrow> string
    \<Rightarrow> (string \<times> string option) list \<Rightarrow> unit prog" where
  "set_each_secret env rname public_key_info public_key [] = ret ()"
| "set_each_secret env rname public_key_info public_key ((secret_name, secret_value) # rest) =
     then_do (encrypt env public_key secret_value) (\<lambda>encrypted_value.
     then_do (case map_of public_key_info ''key_id'' of
                None \<Rightarrow> raise (KeyError ''key_id'')
              | Some key_id \<Rightarrow> ret key_id) (\<lambda>key_id.
     then_do (call env PUT (GITHUB_API_URL @ ''/repos/'' @ fmt (ORG_NAME env) @ ''/'' @ rname
                  @ ''/actions/secrets/'' @ secret_name)
                [(''encrypted_value'', JStr encrypted_value), (''key_id'', JStr key_id)])
       (\<lambda>_. set_each_secret env rname public_key_info public_key rest)))"

definition set_repo_secrets :: "env \<Rightarrow> string \<Rightarrow> (string \<times> string option) list
    \<Rightarrow> unit prog" where
  "set_repo_secrets env rname secrets =
     then_do (get_public_key env rname) (\<lambda>public_key_info.
     case map_of public_key_info ''key'' of
       None \<Rightarrow> raise (KeyError ''key'')
     | Some public_key \<Rightarrow> set_each_secret env rname public_key_info public_key secrets)"

text \<open>
  An entry of \<open>repos.json\<close>. A field is \<open>None\<close> when the key is missing from the entry
  (for \<open>pipeline-type\<close> also when it is \<open>null\<close>: \<open>repo.get\<close> gives \<open>None\<close> for both).
\<close>

record repo =
  repo_name :: "string option"
  repo_users :: "string list option"
  pipeline_type :: "string option"
  status :: "string option"

text \<open>\<open>repo[key]\<close>: a \<open>KeyError\<close> when the key is missing.\<close>

definition subscript :: "string \<Rightarrow> 'a option \<Rightarrow> 'a prog" where
  "subscript key field = (case field of None \<Rightarrow> raise (KeyError key) | Some v \<Rightarrow> ret v)"

text \<open>\<^verbatim>\<open>for user in repo["repo-users"]: add_collaborator(repo["repo-name"], user)\<close>\<close>

fun add_collaborators :: "env \<Rightarrow> string \<Rightarrow> string list \<Rightarrow> unit prog" where
  "add_collaborators env rname [] = ret ()"
| "add_collaborators env rname (user # rest) =
     then_do (add_collaborator env rname user) (\<lambda>_. add_collaborators env rname rest)"

definition secrets :: "env \<Rightarrow> (string \<times> string option) list" where
  "secrets env = [(''SECRET_KEY'', Some ''example_secret_value''), (''GH_TOKEN'', GITHUB_TOKEN env)]"

text \<open>The statements of the \<open>try\<close> block of \<open>main\<close> before the assignment to the status.\<close>

definition provision :: "env \<Rightarrow> repo \<Rightarrow> unit prog" where
  "provision env repo =
     then_do (subscript ''repo-name'' (repo_name repo)) (\<lambda>rname.
     then_do (create_repo env rname) (\<lambda>_.
     then_do (subscript ''repo-users'' (repo_users repo)) (\<lambda>users.
     then_do (add_collaborators env rname users) (\<lambda>_.
     then_do (create_pipeline env rname (pipeline_type repo)) (\<lambda>_.
     set_repo_secrets env rname (secrets env))))))"

text \<open>
  The body of the \<open>for\<close> loop of \<open>main\<close>: the entry as it is afterwards, or the exception
  that leaves the loop. Only a \<open>RequestException\<close> is handled by the \<open>except\<close> clause.
\<close>

definition process_repo :: "env \<Rightarrow> repo \<Rightarrow> repo prog" where
  "process_repo env repo st =
     (case status repo of
        None \<Rightarrow> (Inl (KeyError ''status''), st)
      | Some s \<Rightarrow>
          if s = ''need-to-create'' then
            (case provision env repo st of
               (Inr _, st') \<Rightarrow> (Inr (repo\<lparr>status := Some ''created''\<rparr>), st')
             | (Inl e, st') \<Rightarrow>
                 if is_RequestException e then (Inr repo, st') else (Inl e, st'))
          else (Inr repo, st))"

text \<open>
  The \<open>for\<close> loop: the exception that ended it (if any), the list in memory and the
  effects. After an exception the entries not yet reached are as they were.
\<close>

fun for_repos :: "env \<Rightarrow> repo list \<Rightarrow> state \<Rightarrow> exn option \<times> repo list \<times> state" where
  "for_repos env [] st = (None, [], st)"
| "for_repos env (repo # rest) st =
     (case process_repo env repo st of
        (Inl e, st') \<Rightarrow> (Some e, repo # rest, st')
      | (Inr repo', st') \<Rightarrow>
          (case for_repos env rest st' of (r, rest', st'') \<Rightarrow> (r, repo' # rest', st'')))"

text \<open>
  A run of \<open>main\<close> on the entries read from \<open>repos.json\<close>: the uncaught exception (if
  any), the list in memory at the end, the content of \<open>repos.json\<close> after the run (written
  only when the loop ended normally), and the effects.
\<close>

record outcome =
  uncaught :: "exn option"
  repos_data :: "repo list"
  repos_json :: "repo list"
  effects :: state

definition main :: "env \<Rightarrow> repo list \<Rightarrow> outcome" where
  "main env store =
     (case for_repos env store \<lparr>exchanges = [], sealed = 0\<rparr> of
        (None, data, st) \<Rightarrow>
          \<lparr>uncaught = None, repos_data = data, repos_json = data, effects = st\<rparr>
      | (Some e, data, st) \<Rightarrow>
          \<lparr>uncaught = Some e, repos_data = data, repos_json = store, effects = st\<rparr>)"

section \<open>Example inputs\<close>

text \<open>
  A 32-byte key as the platform returns it (the base point of X25519, the byte 9 followed
  by zeros: a public key that libsodium accepts), a remote that accepts every call, and one
  that answers 422 to the creation of a repository.
\<close>

definition example_key :: string where
  "example_key = ''CQAAAAAAAAAAAAAAAAAAAAAAAAAAAAAAAAAAAAAAAAA=''"

definition example_pk :: bytes where
  "example_pk = [9, 0, 0, 0, 0, 0, 0, 0, 0, 0, 0, 0, 0, 0, 0, 0,
                 0, 0, 0, 0, 0, 0, 0, 0, 0, 0, 0, 0, 0, 0, 0, 0]"

definition remote_ok :: "(request \<times> response) list \<Rightarrow> request \<Rightarrow> response" where
  "remote_ok history rq =
     (if http_method rq = GET
      then Response 200 [(''key_id'', ''568250167242549743''), (''key'', example_key)]
      else Response 201 [])"

definition remote_name_taken :: "(request \<times> response) list \<Rightarrow> request \<Rightarrow> response" where
  "remote_name_taken history rq =
     (if http_method rq = POST then Response 422 [] else remote_ok history rq)"

text \<open>
  A stand-in for the sealed box in the examples (it hides nothing): it refuses the key of
  zero bytes, as libsodium does, and otherwise the box is the key followed by the message.
\<close>

definition toy_seal :: "nat \<Rightarrow> bytes \<Rightarrow> bytes \<Rightarrow> bytes option" where
  "toy_seal i pk m = (if list_all (\<lambda>b. b = 0) pk then None else Some (pk @ m))"

definition example_env :: "((request \<times> response) list \<Rightarrow> request \<Rightarrow> response)
    \<Rightarrow> (nat \<Rightarrow> bytes \<Rightarrow> bytes \<Rightarrow> bytes option) \<Rightarrow> env" where
  "example_env r sb =
     \<lparr>ORG_NAME = Some ''acme'', GITHUB_TOKEN = Some ''ghp_example'',
      files = (\<lambda>p. if p = ''deploy.yml'' then Some ''name: CI'' else None),
      remote = r, crypto_box_seal = sb\<rparr>"

definition svc_a :: repo where
  "svc_a = \<lparr>repo_name = Some ''svc-a'', repo_users = Some [''alice''],
            pipeline_type = Some ''deploy'', status = Some ''need-to-create''\<rparr>"

definition svc_b :: repo where
  "svc_b = \<lparr>repo_name = Some ''svc-b'', repo_users = Some [''bob''],
            pipeline_type = None, status = Some ''need-to-create''\<rparr>"

section \<open>Reading the record of calls\<close>

text \<open>
  A call has succeeded when the remote has answered and the status of the answer is not an
  error status of HTTP (400 to 499 for a client error, 500 to 599 for a server error).
\<close>

fun succeeded :: "response \<Rightarrow> bool" where
  "succeeded NoResponse = False"
| "succeeded (Response code body) = (code < 400 \<or> 600 \<le> code)"

text \<open>
  Between the states \<open>st\<close> and \<open>st'\<close> exactly the calls \<open>calls\<close> (method and URL, in
  order) were made, and each of them succeeded.
\<close>

definition made_ok :: "state \<Rightarrow> state \<Rightarrow> (http_method \<times> string) list \<Rightarrow> bool" where
  "made_ok st st' calls =
     (let n = length (exchanges st); seg = drop n (exchanges st')
      in take n (exchanges st') = exchanges st \<and>
         list_all (\<lambda>x. succeeded (snd x)) seg \<and>
         map (\<lambda>x. (http_method (fst x), url (fst x))) seg = calls)"

text \<open>
  The calls of a complete provisioning of the repository \<open>rname\<close>: its creation, one
  call for each collaborator in list order, the upload of the pipeline file, the fetch of
  the public key and the upload of the two secrets.
\<close>

definition provisioning_calls :: "env \<Rightarrow> string \<Rightarrow> string list \<Rightarrow> string
    \<Rightarrow> (http_method \<times> string) list" where
  "provisioning_calls env rname users ptype =
     [(POST, ''https://api.github.com/orgs/'' @ fmt (ORG_NAME env) @ ''/repos'')] @
     map (\<lambda>user. (PUT, ''https://api.github.com/repos/'' @ fmt (ORG_NAME env) @ ''/'' @ rname
                          @ ''/collaborators/'' @ user)) users @
     [(PUT, ''https://api.github.com/repos/'' @ fmt (ORG_NAME env) @ ''/'' @ rname
              @ ''/contents/.github/workflows/'' @ ptype @ ''.yml''),
      (GET, ''https://api.github.com/repos/'' @ fmt (ORG_NAME env) @ ''/'' @ rname
              @ ''/actions/secrets/public-key''),
      (PUT, ''https://api.github.com/repos/'' @ fmt (ORG_NAME env) @ ''/'' @ rname
              @ ''/actions/secrets/SECRET_KEY''),
      (PUT, ''https://api.github.com/repos/'' @ fmt (ORG_NAME env) @ ''/'' @ rname
              @ ''/actions/secrets/GH_TOKEN'')]"

section \<open>Properties\<close>

lemma for_repos_append:
  "for_repos env (xs @ ys) st =
     (case for_repos env xs st of
        (None, xs', st1) \<Rightarrow>
          (case for_repos env ys st1 of (r, ys', st2) \<Rightarrow> (r, xs' @ ys', st2))
      | (Some e, xs', st1) \<Rightarrow> (Some e, xs' @ ys, st1))"
proof (induction xs arbitrary: st)
  case Nil
  show ?case by (simp split: prod.splits option.splits)
next
  case (Cons x xs)
  show ?case
    by (simp add: Cons.IH split: prod.splits option.splits sum.splits)
qed

subsection \<open>The pipeline step\<close>

text \<open>
  C8. \<open>create_pipeline\<close> raises a \<open>ValueError\<close> when the pipeline type is absent, and
  \<open>read_pipeline_file\<close> raises a \<open>FileNotFoundError\<close> when the file \<open><type>.yml\<close> does
  not exist; in both cases \<open>create_pipeline\<close> ends with the effects unchanged, so no
  file-upload call has been made.
\<close>

theorem create_pipeline_fails_fast:
  "create_pipeline env rname None st = (Inl ValueError, st) \<and>
   (files env (ptype @ ''.yml'') = None \<longrightarrow>
      read_pipeline_file env ptype = Inl FileNotFoundError \<and>
      create_pipeline env rname (Some ptype) st = (Inl FileNotFoundError, st))"
  by (simp add: create_pipeline_def read_pipeline_file_def raise_def lift_def then_do_def)

theorem create_pipeline_fails_fast_witness:
  "create_pipeline (example_env remote_ok toy_seal) ''svc-c'' None \<lparr>exchanges = [], sealed = 0\<rparr>
     = (Inl ValueError, \<lparr>exchanges = [], sealed = 0\<rparr>) \<and>
   files (example_env remote_ok toy_seal) (''build'' @ ''.yml'') = None \<and>
   read_pipeline_file (example_env remote_ok toy_seal) ''build'' = Inl FileNotFoundError \<and>
   create_pipeline (example_env remote_ok toy_seal) ''svc-c'' (Some ''build'') \<lparr>exchanges = [], sealed = 0\<rparr>
     = (Inl FileNotFoundError, \<lparr>exchanges = [], sealed = 0\<rparr>)"
  using create_pipeline_fails_fast [of "example_env remote_ok toy_seal" "''svc-c''"
      "\<lparr>exchanges = [], sealed = 0\<rparr>" "''build''"]
  by (simp add: example_env_def)

subsection \<open>Entries that are skipped\<close>

lemma for_repos_filter:
  "fst (for_repos env (filter (\<lambda>r. status r \<noteq> Some ''created'') store) st)
     = fst (for_repos env store st) \<and>
   snd (snd (for_repos env (filter (\<lambda>r. status r \<noteq> Some ''created'') store) st))
     = snd (snd (for_repos env store st))"
proof (induction store arbitrary: st)
  case Nil
  show ?case by simp
next
  case (Cons x xs)
  show ?case
  proof (cases "status x = Some ''created''")
    case True
    then have "process_repo env x st = (Inr x, st)"
      by (simp add: process_repo_def)
    with True Cons.IH [of st] show ?thesis
      by (auto split: prod.splits)
  next
    case False
    show ?thesis
    proof (cases "process_repo env x st")
      case (Pair r st')
      with False Cons.IH [of st'] show ?thesis
        by (cases r) (auto split: prod.splits)
    qed
  qed
qed

text \<open>
  C7. An entry whose status is \<open>created\<close> goes through the loop body without any effect
  (no remote call, no sealed box) and unchanged; and the effects of a whole run, and the
  exception that ends it if any, are those of the run on the list without its \<open>created\<close>
  entries.
\<close>

theorem created_entry_is_skipped:
  "(status repo = Some ''created'' \<longrightarrow> process_repo env repo st = (Inr repo, st)) \<and>
   effects (main env (filter (\<lambda>r. status r \<noteq> Some ''created'') store))
     = effects (main env store) \<and>
   uncaught (main env (filter (\<lambda>r. status r \<noteq> Some ''created'') store))
     = uncaught (main env store)"
proof -
  let ?init = "\<lparr>exchanges = [], sealed = 0\<rparr>"
  have "effects (main env s) = snd (snd (for_repos env s ?init))"
    and "uncaught (main env s) = fst (for_repos env s ?init)" for s
    by (simp_all add: main_def split: prod.splits option.splits)
  then show ?thesis
    using for_repos_filter [of env store ?init] by (simp add: process_repo_def)
qed

theorem created_entry_is_skipped_witness:
  "status (svc_a\<lparr>status := Some ''created''\<rparr>) = Some ''created'' \<and>
   process_repo (example_env remote_ok toy_seal) (svc_a\<lparr>status := Some ''created''\<rparr>)
       \<lparr>exchanges = [], sealed = 0\<rparr>
     = (Inr (svc_a\<lparr>status := Some ''created''\<rparr>), \<lparr>exchanges = [], sealed = 0\<rparr>)"
  using created_entry_is_skipped [of "svc_a\<lparr>status := Some ''created''\<rparr>"
      "example_env remote_ok toy_seal" "\<lparr>exchanges = [], sealed = 0\<rparr>" "[]"]
  by simp

subsection \<open>A repository that cannot be created\<close>

lemma process_repo_provision:
  assumes "status repo = Some ''need-to-create''"
  shows "process_repo env repo st =
     (case provision env repo st of
        (Inr u, st') \<Rightarrow> (Inr (repo\<lparr>status := Some ''created''\<rparr>), st')
      | (Inl e, st') \<Rightarrow> if is_RequestException e then (Inr repo, st') else (Inl e, st'))"
  using assms by (simp add: process_repo_def)

text \<open>
  C6. When the creation call of a \<open>need-to-create\<close> entry is answered with an error status
  (400 to 599, for which \<open>raise_for_status\<close> raises), the loop body makes that one call
  and no other, leaves the entry as it was, and the loop goes on with the rest of the list,
  so the entry is written back with its status still \<open>need-to-create\<close>.
\<close>

theorem create_failure_stops_entry:
  assumes "status repo = Some ''need-to-create''"
    and "repo_name repo = Some rname"
    and "remote env (exchanges st)
           \<lparr>http_method = POST,
            url = ''https://api.github.com/orgs/'' @ fmt (ORG_NAME env) @ ''/repos'',
            headers = HEADERS env,
            payload = [(''name'', JStr rname), (''private'', JBool True)]\<rparr>
         = Response code body"
    and "400 \<le> code" and "code < 600"
  shows "\<exists>st'. st' = st\<lparr>exchanges := exchanges st @
               [(\<lparr>http_method = POST,
                   url = ''https://api.github.com/orgs/'' @ fmt (ORG_NAME env) @ ''/repos'',
                   headers = HEADERS env,
                   payload = [(''name'', JStr rname), (''private'', JBool True)]\<rparr>,
                 Response code body)]\<rparr> \<and>
           process_repo env repo st = (Inr repo, st') \<and>
           for_repos env (repo # rest) st =
             (case for_repos env rest st' of (r, rest', st'') \<Rightarrow> (r, repo # rest', st''))"
proof -
  let ?rq = "\<lparr>http_method = POST,
            url = ''https://api.github.com/orgs/'' @ fmt (ORG_NAME env) @ ''/repos'',
            headers = HEADERS env,
            payload = [(''name'', JStr rname), (''private'', JBool True)]\<rparr>"
  have "provision env repo st =
      (Inl (HTTPError code), st\<lparr>exchanges := exchanges st @ [(?rq, Response code body)]\<rparr>)"
    using assms(2-5)
    by (simp add: provision_def subscript_def create_repo_def then_do_def ret_def call_def
        raise_for_status_def GITHUB_API_URL_def)
  then have "process_repo env repo st =
      (Inr repo, st\<lparr>exchanges := exchanges st @ [(?rq, Response code body)]\<rparr>)"
    using assms(1) by (simp add: process_repo_provision)
  then show ?thesis
    by simp
qed

theorem create_failure_stops_entry_witness:
  "main (example_env remote_name_taken toy_seal) [svc_a] =
     \<lparr>uncaught = None, repos_data = [svc_a], repos_json = [svc_a],
      effects =
        \<lparr>exchanges =
           [(\<lparr>http_method = POST, url = ''https://api.github.com/orgs/acme/repos'',
              headers = [(''Authorization'', ''token ghp_example''),
                         (''Accept'', ''application/vnd.github.v3+json'')],
              payload = [(''name'', JStr ''svc-a''), (''private'', JBool True)]\<rparr>,
             Response 422 [])],
         sealed = 0\<rparr>\<rparr>"
  using create_failure_stops_entry [of svc_a "''svc-a''" "example_env remote_name_taken toy_seal"
      "\<lparr>exchanges = [], sealed = 0\<rparr>" 422 "[]" "[]"]
  by (simp add: svc_a_def example_env_def remote_name_taken_def HEADERS_def fmt_def main_def)

subsection \<open>The example scenario\<close>

lemma example_env_sel:
  "ORG_NAME (example_env r sb) = Some ''acme''"
  "GITHUB_TOKEN (example_env r sb) = Some ''ghp_example''"
  "files (example_env r sb) p = (if p = ''deploy.yml'' then Some ''name: CI'' else None)"
  "remote (example_env r sb) = r"
  "crypto_box_seal (example_env r sb) = sb"
  by (simp_all add: example_env_def)

lemma pad_key_example: "pad_key example_key = example_key"
  by (subst pad_key.simps) (simp add: example_key_def)

lemma PublicKey_example: "PublicKey (encode_utf8 (pad_key example_key)) = Inr example_pk"
  unfolding pad_key_example
  by (simp add: PublicKey_def example_key_def example_pk_def encode_utf8_def utf8_char_def
      b64decode_def table_a2b_base64_def emit_def)

lemma encrypt_example:
  "encrypt env example_key (Some v) st =
     (case crypto_box_seal env (sealed st) example_pk (encode_utf8 v) of
        None \<Rightarrow> Inl NaclRuntimeError
      | Some encrypted \<Rightarrow> Inr (b64encode encrypted),
      st\<lparr>sealed := sealed st + 1\<rparr>)"
  by (simp add: encrypt_def then_do_def lift_def PublicKey_example seal_value_def)

lemma toy_seal_example: "toy_seal i example_pk m = Some (example_pk @ m)"
  by (simp add: toy_seal_def example_pk_def)

lemma b64encode_name_CI: "b64encode (encode_utf8 ''name: CI'') = ''bmFtZTogQ0k=''"
  by (simp add: encode_utf8_def utf8_char_def b2a_def table_b2a_base64_def)

lemma provision_svc_a:
  assumes "sb (sealed st) example_pk (encode_utf8 ''example_secret_value'') = Some box1"
    and "sb (sealed st + 1) example_pk (encode_utf8 ''ghp_example'') = Some box2"
  shows "provision (example_env remote_ok sb) svc_a st =
     (Inr (),
      st\<lparr>exchanges := exchanges st @
         [(\<lparr>http_method = POST,
             url = ''https://api.github.com/orgs/acme/repos'',
             headers = [(''Authorization'', ''token ghp_example''),
                        (''Accept'', ''application/vnd.github.v3+json'')],
             payload = [(''name'', JStr ''svc-a''), (''private'', JBool True)]\<rparr>,
           Response 201 []),
          (\<lparr>http_method = PUT,
             url = ''https://api.github.com/repos/acme/svc-a/collaborators/alice'',
             headers = [(''Authorization'', ''token ghp_example''),
                        (''Accept'', ''application/vnd.github.v3+json'')],
             payload = [(''permission'', JStr ''push'')]\<rparr>,
           Response 201 []),
          (\<lparr>http_method = PUT,
             url = ''https://api.github.com/repos/acme/svc-a/contents/.github/workflows/deploy.yml'',
             headers = [(''Authorization'', ''token ghp_example''),
                        (''Accept'', ''application/vnd.github.v3+json'')],
             payload = [(''message'', JStr ''Add deploy pipeline''), (''content'', JStr ''bmFtZTogQ0k=''),
                        (''branch'', JStr ''main'')]\<rparr>,
           Response 201 []),
          (\<lparr>http_method = GET,
             url = ''https://api.github.com/repos/acme/svc-a/actions/secrets/public-key'',
             headers = [(''Authorization'', ''token ghp_example''),
                        (''Accept'', ''application/vnd.github.v3+json'')],
             payload = []\<rparr>,
           Response 200 [(''key_id'', ''568250167242549743''), (''key'', example_key)]),
          (\<lparr>http_method = PUT,
             url = ''https://api.github.com/repos/acme/svc-a/actions/secrets/SECRET_KEY'',
             headers = [(''Authorization'', ''token ghp_example''),
                        (''Accept'', ''application/vnd.github.v3+json'')],
             payload = [(''encrypted_value'', JStr (b64encode box1)),
                        (''key_id'', JStr ''568250167242549743'')]\<rparr>,
           Response 201 []),
          (\<lparr>http_method = PUT,
             url = ''https://api.github.com/repos/acme/svc-a/actions/secrets/GH_TOKEN'',
             headers = [(''Authorization'', ''token ghp_example''),
                        (''Accept'', ''application/vnd.github.v3+json'')],
             payload = [(''encrypted_value'', JStr (b64encode box2)),
                        (''key_id'', JStr ''568250167242549743'')]\<rparr>,
           Response 201 [])],
        sealed := sealed st + 2\<rparr>)"
  using assms
  by (simp add: provision_def subscript_def create_repo_def add_collaborator_def
      create_pipeline_def read_pipeline_file_def get_public_key_def set_repo_secrets_def
      secrets_def then_do_def ret_def raise_def lift_def call_def raise_for_status_def
      HEADERS_def GITHUB_API_URL_def fmt_def svc_a_def remote_ok_def example_env_sel
      encrypt_example b64encode_name_CI)

lemma provision_svc_a_toy:
  "fst (provision (example_env remote_ok toy_seal) svc_a st) = Inr ()"
  by (simp add: provision_svc_a [where sb = toy_seal, OF toy_seal_example toy_seal_example])

lemma process_repo_svc_a_toy:
  "process_repo (example_env remote_ok toy_seal) svc_a st =
     (Inr (svc_a\<lparr>status := Some ''created''\<rparr>),
      snd (provision (example_env remote_ok toy_seal) svc_a st))"
proof (cases "provision (example_env remote_ok toy_seal) svc_a st")
  case (Pair r st1)
  with provision_svc_a_toy [of st] have "r = Inr ()"
    by simp
  moreover have "status svc_a = Some ''need-to-create''"
    by (simp add: svc_a_def)
  ultimately show ?thesis
    using Pair by (simp add: process_repo_provision)
qed

text \<open>
  C3. The run on the single entry \<open>svc-a\<close> (user \<open>alice\<close>, pipeline type \<open>deploy\<close>,
  status \<open>need-to-create\<close>), with \<open>deploy.yml\<close> containing \<open>name: CI\<close>, a remote that
  accepts every call and a sealed box that seals the two secret values for the key of the
  repository, makes exactly these calls, in this order: one creation of \<open>svc-a\<close>, one
  collaborator call for \<open>alice\<close>, one upload of the base64 text \<open>bmFtZTogQ0k=\<close> to
  \<open>.github/workflows/deploy.yml\<close> on branch \<open>main\<close>, the fetch of the public key, and two
  secret uploads (\<open>SECRET_KEY\<close> and \<open>GH_TOKEN\<close>, each with the base64 text of its box);
  it ends normally and writes the entry back with status \<open>created\<close>.
\<close>

theorem scenario_svc_a:
  assumes "sb 0 example_pk (encode_utf8 ''example_secret_value'') = Some box1"
    and "sb 1 example_pk (encode_utf8 ''ghp_example'') = Some box2"
  shows "main (example_env remote_ok sb) [svc_a] =
     \<lparr>uncaught = None,
      repos_data = [svc_a\<lparr>status := Some ''created''\<rparr>],
      repos_json = [svc_a\<lparr>status := Some ''created''\<rparr>],
      effects =
        \<lparr>exchanges =
           [(\<lparr>http_method = POST,
               url = ''https://api.github.com/orgs/acme/repos'',
               headers = [(''Authorization'', ''token ghp_example''),
                          (''Accept'', ''application/vnd.github.v3+json'')],
               payload = [(''name'', JStr ''svc-a''), (''private'', JBool True)]\<rparr>,
             Response 201 []),
            (\<lparr>http_method = PUT,
               url = ''https://api.github.com/repos/acme/svc-a/collaborators/alice'',
               headers = [(''Authorization'', ''token ghp_example''),
                          (''Accept'', ''application/vnd.github.v3+json'')],
               payload = [(''permission'', JStr ''push'')]\<rparr>,
             Response 201 []),
            (\<lparr>http_method = PUT,
               url = ''https://api.github.com/repos/acme/svc-a/contents/.github/workflows/deploy.yml'',
               headers = [(''Authorization'', ''token ghp_example''),
                          (''Accept'', ''application/vnd.github.v3+json'')],
               payload = [(''message'', JStr ''Add deploy pipeline''), (''content'', JStr ''bmFtZTogQ0k=''),
                          (''branch'', JStr ''main'')]\<rparr>,
             Response 201 []),
            (\<lparr>http_method = GET,
               url = ''https://api.github.com/repos/acme/svc-a/actions/secrets/public-key'',
               headers = [(''Authorization'', ''token ghp_example''),
                          (''Accept'', ''application/vnd.github.v3+json'')],
               payload = []\<rparr>,
             Response 200 [(''key_id'', ''568250167242549743''), (''key'', example_key)]),
            (\<lparr>http_method = PUT,
               url = ''https://api.github.com/repos/acme/svc-a/actions/secrets/SECRET_KEY'',
               headers = [(''Authorization'', ''token ghp_example''),
                          (''Accept'', ''application/vnd.github.v3+json'')],
               payload = [(''encrypted_value'', JStr (b64encode box1)),
                          (''key_id'', JStr ''568250167242549743'')]\<rparr>,
             Response 201 []),
            (\<lparr>http_method = PUT,
               url = ''https://api.github.com/repos/acme/svc-a/actions/secrets/GH_TOKEN'',
               headers = [(''Authorization'', ''token ghp_example''),
                          (''Accept'', ''application/vnd.github.v3+json'')],
               payload = [(''encrypted_value'', JStr (b64encode box2)),
                          (''key_id'', JStr ''568250167242549743'')]\<rparr>,
             Response 201 [])],
         sealed = 2\<rparr>\<rparr>"
proof -
  have "status svc_a = Some ''need-to-create''"
    by (simp add: svc_a_def)
  moreover have "sb (sealed \<lparr>exchanges = [], sealed = 0\<rparr>) example_pk
      (encode_utf8 ''example_secret_value'') = Some box1"
    and "sb (sealed \<lparr>exchanges = [], sealed = 0\<rparr> + 1) example_pk
      (encode_utf8 ''ghp_example'') = Some box2"
    using assms by simp_all
  ultimately show ?thesis
    by (simp add: main_def process_repo_provision provision_svc_a)
qed

theorem scenario_svc_a_witness:
  "main (example_env remote_ok toy_seal) [svc_a] =
     \<lparr>uncaught = None,
      repos_data = [svc_a\<lparr>status := Some ''created''\<rparr>],
      repos_json = [svc_a\<lparr>status := Some ''created''\<rparr>],
      effects =
        \<lparr>exchanges =
           [(\<lparr>http_method = POST,
               url = ''https://api.github.com/orgs/acme/repos'',
               headers = [(''Authorization'', ''token ghp_example''),
                          (''Accept'', ''application/vnd.github.v3+json'')],
               payload = [(''name'', JStr ''svc-a''), (''private'', JBool True)]\<rparr>,
             Response 201 []),
            (\<lparr>http_method = PUT,
               url = ''https://api.github.com/repos/acme/svc-a/collaborators/alice'',
               headers = [(''Authorization'', ''token ghp_example''),
                          (''Accept'', ''application/vnd.github.v3+json'')],
               payload = [(''permission'', JStr ''push'')]\<rparr>,
             Response 201 []),
            (\<lparr>http_method = PUT,
               url = ''https://api.github.com/repos/acme/svc-a/contents/.github/workflows/deploy.yml'',
               headers = [(''Authorization'', ''token ghp_example''),
                          (''Accept'', ''application/vnd.github.v3+json'')],
               payload = [(''message'', JStr ''Add deploy pipeline''), (''content'', JStr ''bmFtZTogQ0k=''),
                          (''branch'', JStr ''main'')]\<rparr>,
             Response 201 []),
            (\<lparr>http_method = GET,
               url = ''https://api.github.com/repos/acme/svc-a/actions/secrets/public-key'',
               headers = [(''Authorization'', ''token ghp_example''),
                          (''Accept'', ''application/vnd.github.v3+json'')],
               payload = []\<rparr>,
             Response 200 [(''key_id'', ''568250167242549743''), (''key'', example_key)]),
            (\<lparr>http_method = PUT,
               url = ''https://api.github.com/repos/acme/svc-a/actions/secrets/SECRET_KEY'',
               headers = [(''Authorization'', ''token ghp_example''),
                          (''Accept'', ''application/vnd.github.v3+json'')],
               payload = [(''encrypted_value'', JStr (b64encode (example_pk @ encode_utf8 ''example_secret_value''))),
                          (''key_id'', JStr ''568250167242549743'')]\<rparr>,
             Response 201 []),
            (\<lparr>http_method = PUT,
               url = ''https://api.github.com/repos/acme/svc-a/actions/secrets/GH_TOKEN'',
               headers = [(''Authorization'', ''token ghp_example''),
                          (''Accept'', ''application/vnd.github.v3+json'')],
               payload = [(''encrypted_value'', JStr (b64encode (example_pk @ encode_utf8 ''ghp_example''))),
                          (''key_id'', JStr ''568250167242549743'')]\<rparr>,
             Response 201 [])],
         sealed = 2\<rparr>\<rparr>"
  by (rule scenario_svc_a [where sb = toy_seal, OF toy_seal_example toy_seal_example])

subsection \<open>Exceptions that the except clause does not handle\<close>

lemma process_repo_raises:
  "process_repo env repo st = (Inl e, st') \<Longrightarrow> \<not> is_RequestException e"
  by (auto simp: process_repo_def split: option.splits if_splits prod.splits sum.splits)

text \<open>
  C10. When the loop has gone through the entries \<open>before\<close> normally and the next entry
  raises an exception that is not a \<open>RequestException\<close> (from its provisioning, or a
  \<open>KeyError\<close> for a missing status), the run ends with that exception, \<open>repos.json\<close> is
  not rewritten (its content is still the input), and the list in memory, with the
  updates made for the earlier entries, is lost.
\<close>

theorem uncaught_exception_skips_rewrite:
  assumes "for_repos env before \<lparr>exchanges = [], sealed = 0\<rparr> = (None, before', st1)"
    and "status repo = Some ''need-to-create'' \<and> provision env repo st1 = (Inl e, st2)
           \<and> \<not> is_RequestException e
         \<or> status repo = None \<and> e = KeyError ''status'' \<and> st2 = st1"
  shows "main env (before @ repo # rest) =
           \<lparr>uncaught = Some e, repos_data = before' @ repo # rest,
            repos_json = before @ repo # rest, effects = st2\<rparr>"
proof -
  have "process_repo env repo st1 = (Inl e, st2)"
    using assms(2) by (auto simp: process_repo_def)
  then have "for_repos env (repo # rest) st1 = (Some e, repo # rest, st2)"
    by simp
  with assms(1) show ?thesis
    by (simp add: main_def for_repos_append)
qed

theorem uncaught_exception_skips_rewrite_witness:
  "main (example_env remote_ok toy_seal) ([svc_a] @ svc_b # [svc_a]) =
     \<lparr>uncaught = Some ValueError,
      repos_data = [svc_a\<lparr>status := Some ''created''\<rparr>] @ svc_b # [svc_a],
      repos_json = [svc_a] @ svc_b # [svc_a],
      effects = snd (provision (example_env remote_ok toy_seal) svc_b
        (snd (provision (example_env remote_ok toy_seal) svc_a \<lparr>exchanges = [], sealed = 0\<rparr>)))\<rparr>"
proof -
  let ?env = "example_env remote_ok toy_seal"
  let ?st1 = "snd (provision ?env svc_a \<lparr>exchanges = [], sealed = 0\<rparr>)"
  have a: "status svc_a = Some ''need-to-create''"
    by (simp add: svc_a_def)
  have h1: "for_repos ?env [svc_a] \<lparr>exchanges = [], sealed = 0\<rparr>
      = (None, [svc_a\<lparr>status := Some ''created''\<rparr>], ?st1)"
    by (simp add: process_repo_svc_a_toy)
  have "fst (provision ?env svc_b st) = Inl ValueError" for st
    by (simp add: provision_def subscript_def create_repo_def add_collaborator_def
        create_pipeline_def then_do_def ret_def raise_def call_def raise_for_status_def
        svc_b_def remote_ok_def example_env_sel)
  then have h2: "provision ?env svc_b ?st1 = (Inl ValueError, snd (provision ?env svc_b ?st1))"
    by (metis prod.collapse)
  have h3: "status svc_b = Some ''need-to-create''"
    by (simp add: svc_b_def)
  show ?thesis
    using uncaught_exception_skips_rewrite [of ?env "[svc_a]"
        "[svc_a\<lparr>status := Some ''created''\<rparr>]" ?st1 svc_b ValueError
        "snd (provision ?env svc_b ?st1)" "[svc_a]"] h1 h2 h3
    by simp
qed

text \<open>
  C1, as the code has it. The claim that every exception of the provisioning steps is
  caught per repository fails: here the first entry has no pipeline type, the
  \<open>ValueError\<close> of \<open>create_pipeline\<close> is not handled by the \<open>except\<close> clause, the run
  ends with it after the two calls for \<open>svc-b\<close>, and the next entry \<open>svc-a\<close> is never
  processed.
\<close>

theorem missing_pipeline_type_ends_run:
  "main (example_env remote_ok toy_seal) [svc_b, svc_a] =
     \<lparr>uncaught = Some ValueError,
      repos_data = [svc_b, svc_a],
      repos_json = [svc_b, svc_a],
      effects =
        \<lparr>exchanges =
           [(\<lparr>http_method = POST, url = ''https://api.github.com/orgs/acme/repos'',
              headers = [(''Authorization'', ''token ghp_example''),
                         (''Accept'', ''application/vnd.github.v3+json'')],
              payload = [(''name'', JStr ''svc-b''), (''private'', JBool True)]\<rparr>,
             Response 201 []),
            (\<lparr>http_method = PUT,
              url = ''https://api.github.com/repos/acme/svc-b/collaborators/bob'',
              headers = [(''Authorization'', ''token ghp_example''),
                         (''Accept'', ''application/vnd.github.v3+json'')],
              payload = [(''permission'', JStr ''push'')]\<rparr>,
             Response 201 [])],
         sealed = 0\<rparr>\<rparr>"
  by (simp add: main_def process_repo_def provision_def subscript_def create_repo_def
      add_collaborator_def create_pipeline_def then_do_def ret_def raise_def call_def
      raise_for_status_def HEADERS_def GITHUB_API_URL_def fmt_def svc_b_def remote_ok_def
      example_env_sel)

lemma call_raises:
  "call env m u p st = (Inl e, st') \<Longrightarrow> is_RequestException e"
  by (auto simp: call_def raise_for_status_def Let_def split: response.splits if_splits)

text \<open>
  C1, amended. Every failure of a remote call is a \<open>RequestException\<close> (an \<open>HTTPError\<close>
  for a status from 400 to 599, a \<open>ConnectionError\<close> when there is no response); and a
  \<open>RequestException\<close> raised by the provisioning of a \<open>need-to-create\<close> entry is handled
  for that entry alone: the entry is left as it was and the loop goes on with the next one.
\<close>

theorem request_exception_is_caught:
  assumes "status repo = Some ''need-to-create''"
    and "provision env repo st = (Inl e, st')"
    and "is_RequestException e"
  shows "process_repo env repo st = (Inr repo, st') \<and>
         for_repos env (repo # rest) st =
           (case for_repos env rest st' of (r, rest', st'') \<Rightarrow> (r, repo # rest', st'')) \<and>
         (\<forall>m u p s x s'. call env m u p s = (Inl x, s') \<longrightarrow> is_RequestException x)"
  using assms by (simp add: process_repo_provision call_raises)

lemma provision_svc_a_name_taken:
  "provision (example_env remote_name_taken sb) svc_a \<lparr>exchanges = [], sealed = 0\<rparr> =
     (Inl (HTTPError 422),
      \<lparr>exchanges =
         [(\<lparr>http_method = POST, url = ''https://api.github.com/orgs/acme/repos'',
            headers = [(''Authorization'', ''token ghp_example''),
                       (''Accept'', ''application/vnd.github.v3+json'')],
            payload = [(''name'', JStr ''svc-a''), (''private'', JBool True)]\<rparr>,
           Response 422 [])],
       sealed = 0\<rparr>)"
  by (simp add: provision_def subscript_def create_repo_def then_do_def ret_def call_def
      raise_for_status_def HEADERS_def GITHUB_API_URL_def fmt_def svc_a_def
      remote_name_taken_def example_env_sel)

theorem request_exception_is_caught_witness:
  "status svc_a = Some ''need-to-create'' \<and>
   is_RequestException (HTTPError 422) \<and>
   process_repo (example_env remote_name_taken toy_seal) svc_a \<lparr>exchanges = [], sealed = 0\<rparr> =
     (Inr svc_a,
      \<lparr>exchanges =
         [(\<lparr>http_method = POST, url = ''https://api.github.com/orgs/acme/repos'',
            headers = [(''Authorization'', ''token ghp_example''),
                       (''Accept'', ''application/vnd.github.v3+json'')],
            payload = [(''name'', JStr ''svc-a''), (''private'', JBool True)]\<rparr>,
           Response 422 [])],
       sealed = 0\<rparr>)"
proof -
  have a: "status svc_a = Some ''need-to-create''"
    by (simp add: svc_a_def)
  have b: "is_RequestException (HTTPError 422)"
    by simp
  show ?thesis
    using request_exception_is_caught [OF a provision_svc_a_name_taken b, of toy_seal "[]"] a
    by simp
qed

subsection \<open>What is written back\<close>

lemma for_repos_forward:
  "for_repos env store st = (r, data, st') \<Longrightarrow>
   list_all2 (\<lambda>old new. new = old \<or>
       (status old = Some ''need-to-create'' \<and> new = old\<lparr>status := Some ''created''\<rparr>))
     store data"
proof (induction store arbitrary: st r data st')
  case Nil
  then show ?case by simp
next
  case (Cons x xs)
  show ?case
  proof (cases "process_repo env x st")
    case (Pair res st1)
    show ?thesis
    proof (cases res)
      case (Inl e)
      with Pair Cons.prems have "data = x # xs"
        by simp
      then show ?thesis
        by (simp add: list_all2_refl)
    next
      case (Inr x')
      obtain r2 data2 st2 where rest: "for_repos env xs st1 = (r2, data2, st2)"
        by (cases "for_repos env xs st1") auto
      with Pair Inr Cons.prems have data: "data = x' # data2"
        by simp
      have "x' = x \<or> (status x = Some ''need-to-create'' \<and> x' = x\<lparr>status := Some ''created''\<rparr>)"
        using Pair Inr
        by (auto simp: process_repo_def split: option.splits if_splits prod.splits sum.splits)
      with Cons.IH [OF rest] data show ?thesis
        by simp
    qed
  qed
qed

lemma for_repos_idle:
  "\<forall>x \<in> set store. status x \<noteq> Some ''need-to-create'' \<Longrightarrow>
   snd (for_repos env store st) = (store, st)"
proof (induction store)
  case Nil
  show ?case by simp
next
  case (Cons x xs)
  then have "snd (for_repos env xs st) = (xs, st)"
    by simp
  moreover have "process_repo env x st = (Inr x, st) \<or>
      process_repo env x st = (Inl (KeyError ''status''), st)"
    using Cons.prems by (auto simp: process_repo_def split: option.splits)
  ultimately show ?case
    by (auto split: prod.splits)
qed

text \<open>
  C9. When the loop ends normally, the whole list in memory is written to \<open>repos.json\<close>:
  it has an entry for every entry read, each one either as it was read or with its status
  changed from \<open>need-to-create\<close> to \<open>created\<close>. When no entry has the status
  \<open>need-to-create\<close>, the content of \<open>repos.json\<close> after the run is the content read, and
  no remote call has been made.
\<close>

theorem whole_list_written_back:
  "(uncaught (main env store) = None \<longrightarrow>
      repos_json (main env store) = repos_data (main env store)) \<and>
   list_all2 (\<lambda>old new. new = old \<or>
       (status old = Some ''need-to-create'' \<and> new = old\<lparr>status := Some ''created''\<rparr>))
     store (repos_json (main env store)) \<and>
   ((\<forall>x \<in> set store. status x \<noteq> Some ''need-to-create'') \<longrightarrow>
      repos_json (main env store) = store \<and>
      effects (main env store) = \<lparr>exchanges = [], sealed = 0\<rparr>)"
proof -
  let ?init = "\<lparr>exchanges = [], sealed = 0\<rparr>"
  obtain r data st where run: "for_repos env store ?init = (r, data, st)"
    by (cases "for_repos env store ?init") auto
  have rel: "list_all2 (\<lambda>old new. new = old \<or>
       (status old = Some ''need-to-create'' \<and> new = old\<lparr>status := Some ''created''\<rparr>))
     store data"
    using for_repos_forward [OF run] .
  have 1: "uncaught (main env store) = None \<longrightarrow>
      repos_json (main env store) = repos_data (main env store)"
    using run by (cases r) (simp_all add: main_def)
  have 2: "list_all2 (\<lambda>old new. new = old \<or>
       (status old = Some ''need-to-create'' \<and> new = old\<lparr>status := Some ''created''\<rparr>))
     store (repos_json (main env store))"
    using run rel by (cases r) (simp_all add: main_def list_all2_refl)
  have 3: "repos_json (main env store) = store \<and> effects (main env store) = ?init"
    if "\<forall>x \<in> set store. status x \<noteq> Some ''need-to-create''"
    using for_repos_idle [OF that, of env ?init] run
    by (cases r) (simp_all add: main_def)
  from 1 2 3 show ?thesis
    by blast
qed

theorem whole_list_written_back_witness:
  "uncaught (main (example_env remote_ok toy_seal) [svc_a\<lparr>status := Some ''created''\<rparr>]) = None \<and>
   repos_json (main (example_env remote_ok toy_seal) [svc_a\<lparr>status := Some ''created''\<rparr>])
     = [svc_a\<lparr>status := Some ''created''\<rparr>] \<and>
   repos_data (main (example_env remote_ok toy_seal) [svc_a\<lparr>status := Some ''created''\<rparr>])
     = [svc_a\<lparr>status := Some ''created''\<rparr>] \<and>
   effects (main (example_env remote_ok toy_seal) [svc_a\<lparr>status := Some ''created''\<rparr>])
     = \<lparr>exchanges = [], sealed = 0\<rparr>"
proof -
  let ?store = "[svc_a\<lparr>status := Some ''created''\<rparr>]"
  have a: "\<forall>x \<in> set ?store. status x \<noteq> Some ''need-to-create''"
    by simp
  have b: "uncaught (main (example_env remote_ok toy_seal) ?store) = None"
    by (simp add: main_def process_repo_def)
  show ?thesis
    using whole_list_written_back [of "example_env remote_ok toy_seal" ?store] a b
    by auto
qed

subsection \<open>The status moves forward only, and only after every call succeeded\<close>

lemma made_ok_refl: "exchanges st' = exchanges st \<Longrightarrow> made_ok st st' []"
  by (simp add: made_ok_def)

lemma made_ok_iff:
  "made_ok st st' calls \<longleftrightarrow>
     (\<exists>seg. exchanges st' = exchanges st @ seg \<and> list_all (\<lambda>x. succeeded (snd x)) seg \<and>
        map (\<lambda>x. (http_method (fst x), url (fst x))) seg = calls)"
proof
  assume "made_ok st st' calls"
  then have "exchanges st' = exchanges st @ drop (length (exchanges st)) (exchanges st')"
    by (metis (no_types, lifting) append_take_drop_id made_ok_def)
  with \<open>made_ok st st' calls\<close> show "\<exists>seg. exchanges st' = exchanges st @ seg \<and>
      list_all (\<lambda>x. succeeded (snd x)) seg \<and>
      map (\<lambda>x. (http_method (fst x), url (fst x))) seg = calls"
    unfolding made_ok_def Let_def by blast
next
  assume "\<exists>seg. exchanges st' = exchanges st @ seg \<and> list_all (\<lambda>x. succeeded (snd x)) seg \<and>
      map (\<lambda>x. (http_method (fst x), url (fst x))) seg = calls"
  then show "made_ok st st' calls"
    by (auto simp: made_ok_def)
qed

lemma made_ok_trans:
  "made_ok st st1 c1 \<Longrightarrow> made_ok st1 st2 c2 \<Longrightarrow> made_ok st st2 (c1 @ c2)"
  unfolding made_ok_iff by auto

lemma then_do_Inr:
  "then_do m f st = (Inr y, st2) \<Longrightarrow> \<exists>x st1. m st = (Inr x, st1) \<and> f x st1 = (Inr y, st2)"
  by (auto simp: then_do_def split: prod.splits sum.splits)

lemma call_ok:
  "call env m u p st = (Inr b, st') \<Longrightarrow> made_ok st st' [(m, u)]"
  by (cases "remote env (exchanges st)
        \<lparr>http_method = m, url = u, headers = HEADERS env, payload = p\<rparr>")
    (auto simp: call_def Let_def made_ok_def raise_for_status_def split: if_splits)

lemma create_repo_ok:
  "create_repo env rname st = (Inr u, st') \<Longrightarrow>
   made_ok st st' [(POST, ''https://api.github.com/orgs/'' @ fmt (ORG_NAME env) @ ''/repos'')]"
  unfolding create_repo_def
  by (auto dest!: then_do_Inr call_ok simp: ret_def GITHUB_API_URL_def)

lemma add_collaborator_ok:
  "add_collaborator env rname user st = (Inr u, st') \<Longrightarrow>
   made_ok st st' [(PUT, ''https://api.github.com/repos/'' @ fmt (ORG_NAME env) @ ''/'' @ rname
                          @ ''/collaborators/'' @ user)]"
  unfolding add_collaborator_def
  by (auto dest!: then_do_Inr call_ok simp: ret_def GITHUB_API_URL_def)

lemma add_collaborators_ok:
  "add_collaborators env rname users st = (Inr u, st') \<Longrightarrow>
   made_ok st st'
     (map (\<lambda>user. (PUT, ''https://api.github.com/repos/'' @ fmt (ORG_NAME env) @ ''/'' @ rname
                          @ ''/collaborators/'' @ user)) users)"
proof (induction users arbitrary: st)
  case Nil
  then show ?case
    by (simp add: ret_def made_ok_refl)
next
  case (Cons user users)
  from Cons.prems obtain st1 where
    1: "add_collaborator env rname user st = (Inr (), st1)" and
    2: "add_collaborators env rname users st1 = (Inr u, st')"
    by (auto dest!: then_do_Inr)
  show ?case
    using made_ok_trans [OF add_collaborator_ok [OF 1] Cons.IH [OF 2]] by simp
qed

lemma create_pipeline_ok:
  "create_pipeline env rname ptype_opt st = (Inr u, st') \<Longrightarrow>
   \<exists>ptype. ptype_opt = Some ptype \<and>
     made_ok st st' [(PUT, ''https://api.github.com/repos/'' @ fmt (ORG_NAME env) @ ''/'' @ rname
              @ ''/contents/.github/workflows/'' @ ptype @ ''.yml'')]"
  unfolding create_pipeline_def
  by (cases ptype_opt)
    (auto dest!: then_do_Inr call_ok simp: ret_def raise_def lift_def Let_def GITHUB_API_URL_def)

lemma encrypt_exchanges:
  "encrypt env k v st = (Inr c, st') \<Longrightarrow> exchanges st' = exchanges st"
  unfolding encrypt_def seal_value_def
  by (auto dest!: then_do_Inr simp: lift_def raise_def split: option.splits)

lemma set_each_secret_ok:
  "set_each_secret env rname info k items st = (Inr u, st') \<Longrightarrow>
   made_ok st st'
     (map (\<lambda>item. (PUT, ''https://api.github.com/repos/'' @ fmt (ORG_NAME env) @ ''/'' @ rname
                          @ ''/actions/secrets/'' @ fst item)) items)"
proof (induction items arbitrary: st)
  case Nil
  then show ?case
    by (simp add: ret_def made_ok_refl)
next
  case (Cons item items)
  obtain secret_name secret_value where item: "item = (secret_name, secret_value)"
    by (cases item)
  from Cons.prems obtain c st1 kid st2 b st3 where
    1: "encrypt env k secret_value st = (Inr c, st1)" and
    2: "(case map_of info ''key_id'' of None \<Rightarrow> raise (KeyError ''key_id'')
           | Some key_id \<Rightarrow> ret key_id) st1 = (Inr kid, st2)" and
    3: "call env PUT (GITHUB_API_URL @ ''/repos/'' @ fmt (ORG_NAME env) @ ''/'' @ rname
                  @ ''/actions/secrets/'' @ secret_name)
                [(''encrypted_value'', JStr c), (''key_id'', JStr kid)] st2 = (Inr b, st3)" and
    4: "set_each_secret env rname info k items st3 = (Inr u, st')"
    unfolding item set_each_secret.simps
    by (blast dest!: then_do_Inr)
  have "exchanges st2 = exchanges st"
    using encrypt_exchanges [OF 1] 2
    by (auto simp: raise_def ret_def split: option.splits)
  then have a: "made_ok st st2 []"
    by (rule made_ok_refl)
  have "made_ok st st' ([] @ [(PUT, GITHUB_API_URL @ ''/repos/'' @ fmt (ORG_NAME env) @ ''/''
      @ rname @ ''/actions/secrets/'' @ secret_name)] @
      map (\<lambda>item. (PUT, ''https://api.github.com/repos/'' @ fmt (ORG_NAME env) @ ''/'' @ rname
                          @ ''/actions/secrets/'' @ fst item)) items)"
    by (intro made_ok_trans [OF a] made_ok_trans [OF call_ok [OF 3]] Cons.IH [OF 4])
  then show ?case
    by (simp add: item GITHUB_API_URL_def)
qed

lemma set_repo_secrets_ok:
  "set_repo_secrets env rname items st = (Inr u, st') \<Longrightarrow>
   made_ok st st'
     ((GET, ''https://api.github.com/repos/'' @ fmt (ORG_NAME env) @ ''/'' @ rname
              @ ''/actions/secrets/public-key'') #
      map (\<lambda>item. (PUT, ''https://api.github.com/repos/'' @ fmt (ORG_NAME env) @ ''/'' @ rname
                          @ ''/actions/secrets/'' @ fst item)) items)"
proof -
  assume run: "set_repo_secrets env rname items st = (Inr u, st')"
  then obtain info st1 where
    1: "get_public_key env rname st = (Inr info, st1)" and
    2: "(case map_of info ''key'' of None \<Rightarrow> raise (KeyError ''key'')
          | Some k \<Rightarrow> set_each_secret env rname info k items) st1 = (Inr u, st')"
    unfolding set_repo_secrets_def by (blast dest!: then_do_Inr)
  from 2 obtain k where "set_each_secret env rname info k items st1 = (Inr u, st')"
    by (auto simp: raise_def split: option.splits)
  note b = set_each_secret_ok [OF this]
  have a: "made_ok st st1 [(GET, ''https://api.github.com/repos/'' @ fmt (ORG_NAME env) @ ''/''
      @ rname @ ''/actions/secrets/public-key'')]"
    using call_ok [OF 1 [unfolded get_public_key_def]] by (simp add: GITHUB_API_URL_def)
  show ?thesis
    using made_ok_trans [OF a b] by simp
qed

lemma provision_ok:
  assumes "provision env repo st = (Inr u, st')"
  shows "\<exists>rname users ptype. repo_name repo = Some rname \<and> repo_users repo = Some users \<and>
     pipeline_type repo = Some ptype \<and>
     made_ok st st' (provisioning_calls env rname users ptype)"
proof -
  from assms obtain rname st1 st2 users st3 st4 st5 where
    1: "subscript ''repo-name'' (repo_name repo) st = (Inr rname, st1)" and
    2: "create_repo env rname st1 = (Inr (), st2)" and
    3: "subscript ''repo-users'' (repo_users repo) st2 = (Inr users, st3)" and
    4: "add_collaborators env rname users st3 = (Inr (), st4)" and
    5: "create_pipeline env rname (pipeline_type repo) st4 = (Inr (), st5)" and
    6: "set_repo_secrets env rname (secrets env) st5 = (Inr u, st')"
    unfolding provision_def by (fastforce dest!: then_do_Inr)
  from 1 have n: "repo_name repo = Some rname" "st1 = st"
    by (auto simp: subscript_def raise_def ret_def split: option.splits)
  from 3 have us: "repo_users repo = Some users" "st3 = st2"
    by (auto simp: subscript_def raise_def ret_def split: option.splits)
  from create_pipeline_ok [OF 5] obtain ptype where
    p: "pipeline_type repo = Some ptype" and
    pl: "made_ok st4 st5 [(PUT, ''https://api.github.com/repos/'' @ fmt (ORG_NAME env) @ ''/''
          @ rname @ ''/contents/.github/workflows/'' @ ptype @ ''.yml'')]"
    by blast
  have "made_ok st st' (provisioning_calls env rname users ptype)"
    using made_ok_trans [OF create_repo_ok [OF 2 [unfolded n(2)]]
        made_ok_trans [OF add_collaborators_ok [OF 4 [unfolded us(2)]]
          made_ok_trans [OF pl set_repo_secrets_ok [OF 6]]]]
    by (simp add: provisioning_calls_def secrets_def)
  with n(1) us(1) p show ?thesis
    by blast
qed

lemma for_repos_head:
  assumes "for_repos env (repo # rest) st = (r, ys, st2)"
  shows "\<exists>ys'. ys = (if status repo = Some ''need-to-create'' \<and> fst (provision env repo st) = Inr ()
           then repo\<lparr>status := Some ''created''\<rparr> else repo) # ys'"
  using assms
  by (cases "provision env repo st")
    (auto simp: process_repo_def split: option.splits if_splits prod.splits sum.splits)

lemma for_repos_length:
  "for_repos env store st = (r, data, st') \<Longrightarrow> length data = length store"
  by (drule for_repos_forward) (simp add: list_all2_lengthD)

text \<open>
  C2. After a run, every entry, in memory and in \<open>repos.json\<close>, is either as it was read or
  has gone from \<open>need-to-create\<close> to \<open>created\<close>. An entry that the loop reaches in the
  state \<open>st\<close> ends as \<open>created\<close> in memory exactly when its status was
  \<open>need-to-create\<close> and its provisioning returned without an exception, ends as
  \<open>created\<close> in \<open>repos.json\<close> exactly when, moreover, the run ended normally, and
  otherwise ends as it was; and a provisioning that returns has made every call (creation,
  each collaborator, pipeline upload, key fetch, each secret), each answered with a status
  that is not an error status. So an entry one of whose calls fails is unchanged at the
  end of the run.
\<close>

theorem status_moves_forward_only:
  assumes "for_repos env before \<lparr>exchanges = [], sealed = 0\<rparr> = (None, before', st)"
  shows "list_all2 (\<lambda>old new. new = old \<or>
             (status old = Some ''need-to-create'' \<and> new = old\<lparr>status := Some ''created''\<rparr>))
           (before @ repo # rest) (repos_data (main env (before @ repo # rest))) \<and>
         list_all2 (\<lambda>old new. new = old \<or>
             (status old = Some ''need-to-create'' \<and> new = old\<lparr>status := Some ''created''\<rparr>))
           (before @ repo # rest) (repos_json (main env (before @ repo # rest))) \<and>
         repos_data (main env (before @ repo # rest)) ! length before =
           (if status repo = Some ''need-to-create'' \<and> fst (provision env repo st) = Inr ()
            then repo\<lparr>status := Some ''created''\<rparr> else repo) \<and>
         repos_json (main env (before @ repo # rest)) ! length before =
           (if status repo = Some ''need-to-create'' \<and> fst (provision env repo st) = Inr ()
               \<and> uncaught (main env (before @ repo # rest)) = None
            then repo\<lparr>status := Some ''created''\<rparr> else repo) \<and>
         (fst (provision env repo st) = Inr () \<longrightarrow>
            (\<exists>rname users ptype. repo_name repo = Some rname \<and> repo_users repo = Some users \<and>
               pipeline_type repo = Some ptype \<and>
               made_ok st (snd (provision env repo st))
                 (provisioning_calls env rname users ptype)))"
proof -
  let ?init = "\<lparr>exchanges = [], sealed = 0\<rparr>"
  let ?store = "before @ repo # rest"
  let ?fwd = "\<lambda>old new. new = old \<or>
      (status old = Some ''need-to-create'' \<and> new = old\<lparr>status := Some ''created''\<rparr>)"
  obtain r data st2 where run: "for_repos env ?store ?init = (r, data, st2)"
    by (cases "for_repos env ?store ?init") auto
  have data: "repos_data (main env ?store) = data"
    using run by (cases r) (simp_all add: main_def)
  have json: "repos_json (main env ?store) = data \<or> repos_json (main env ?store) = ?store"
    using run by (cases r) (simp_all add: main_def)
  have ended: "repos_json (main env ?store) = data" if "uncaught (main env ?store) = None"
    using run that by (cases r) (simp_all add: main_def)
  have raised: "repos_json (main env ?store) = ?store" if "uncaught (main env ?store) \<noteq> None"
    using run that by (cases r) (simp_all add: main_def)
  have fwd: "list_all2 ?fwd ?store data"
    using for_repos_forward [OF run] .
  have 1: "list_all2 ?fwd ?store (repos_data (main env ?store))"
    using fwd data by simp
  have 2: "list_all2 ?fwd ?store (repos_json (main env ?store))"
    using fwd json by (auto simp: list_all2_refl)
  obtain r' ys st' where tail: "for_repos env (repo # rest) st = (r', ys, st')"
    by (cases "for_repos env (repo # rest) st") auto
  have "data = before' @ ys"
    using run assms tail by (simp add: for_repos_append)
  moreover have "length before' = length before"
    using for_repos_length [OF assms] .
  ultimately have "data ! length before = hd ys" "ys \<noteq> [] \<longrightarrow> data ! length before = ys ! 0"
    using for_repos_head [OF tail] by (auto simp: nth_append)
  with for_repos_head [OF tail] have 3: "repos_data (main env ?store) ! length before =
      (if status repo = Some ''need-to-create'' \<and> fst (provision env repo st) = Inr ()
       then repo\<lparr>status := Some ''created''\<rparr> else repo)"
    using data by auto
  have 4: "\<exists>rname users ptype. repo_name repo = Some rname \<and> repo_users repo = Some users \<and>
      pipeline_type repo = Some ptype \<and>
      made_ok st (snd (provision env repo st)) (provisioning_calls env rname users ptype)"
    if "fst (provision env repo st) = Inr ()"
  proof -
    from that have "provision env repo st = (Inr (), snd (provision env repo st))"
      by (metis prod.collapse)
    then show ?thesis
      by (rule provision_ok)
  qed
  have 5: "repos_json (main env ?store) ! length before =
      (if status repo = Some ''need-to-create'' \<and> fst (provision env repo st) = Inr ()
          \<and> uncaught (main env ?store) = None
       then repo\<lparr>status := Some ''created''\<rparr> else repo)"
  proof (cases "uncaught (main env ?store) = None")
    case True
    then show ?thesis
      using 3 data ended [OF True] by simp
  next
    case False
    then have "repos_json (main env ?store) = ?store"
      by (rule raised)
    then have "repos_json (main env ?store) ! length before = repo"
      by simp
    with False show ?thesis
      by simp
  qed
  from 1 2 3 4 5 show ?thesis
    by blast
qed

theorem status_moves_forward_only_witness:
  "repos_data (main (example_env remote_ok toy_seal) ([] @ svc_a # [])) ! length ([] :: repo list)
     = svc_a\<lparr>status := Some ''created''\<rparr> \<and>
   repos_json (main (example_env remote_ok toy_seal) ([] @ svc_a # [])) ! length ([] :: repo list)
     = svc_a\<lparr>status := Some ''created''\<rparr> \<and>
   fst (provision (example_env remote_ok toy_seal) svc_a \<lparr>exchanges = [], sealed = 0\<rparr>) = Inr () \<and>
   made_ok \<lparr>exchanges = [], sealed = 0\<rparr>
     (snd (provision (example_env remote_ok toy_seal) svc_a \<lparr>exchanges = [], sealed = 0\<rparr>))
     (provisioning_calls (example_env remote_ok toy_seal) ''svc-a'' [''alice''] ''deploy'')"
proof -
  let ?env = "example_env remote_ok toy_seal"
  let ?init = "\<lparr>exchanges = [], sealed = 0\<rparr>"
  have h: "for_repos ?env [] ?init = (None, [], ?init)"
    by simp
  have a: "status svc_a = Some ''need-to-create''" "repo_name svc_a = Some ''svc-a''"
    "repo_users svc_a = Some [''alice'']" "pipeline_type svc_a = Some ''deploy''"
    by (simp_all add: svc_a_def)
  have b: "fst (provision ?env svc_a ?init) = Inr ()"
    by (rule provision_svc_a_toy)
  have c: "uncaught (main ?env ([] @ svc_a # [])) = None"
    by (simp add: main_def process_repo_svc_a_toy)
  show ?thesis
    using status_moves_forward_only [OF h, of svc_a "[]"] a b c
    by auto
qed

subsection \<open>The key is padded before it is decoded\<close>

lemma pad_key_eq: "pad_key k = k @ replicate ((4 - length k mod 4) mod 4) CHR ''=''"
proof (induction k rule: pad_key.induct)
  case (1 k)
  show ?case
  proof (cases "length k mod 4 = 0")
    case True
    then show ?thesis
      by (subst pad_key.simps) simp
  next
    case False
    moreover have "length k mod 4 < 4"
      by simp
    ultimately have c: "length k mod 4 = 1 \<or> length k mod 4 = 2 \<or> length k mod 4 = 3"
      by linarith
    have "pad_key k = pad_key (k @ ''='')"
      using False by (subst pad_key.simps) simp
    also have "\<dots> = (k @ ''='') @ replicate ((4 - length (k @ ''='') mod 4) mod 4) CHR ''=''"
      using False by (rule "1.IH")
    also have "\<dots> = k @ replicate ((4 - length k mod 4) mod 4) CHR ''=''"
      using c by (auto simp: mod_Suc numeral_2_eq_2 numeral_3_eq_3)
    finally show ?thesis .
  qed
qed

lemma pad_key_length: "length (pad_key k) mod 4 = 0"
proof (induction k rule: pad_key.induct)
  case (1 k)
  show ?case
  proof (cases "length k mod 4 = 0")
    case True
    then show ?thesis
      by (subst pad_key.simps) simp
  next
    case False
    then show ?thesis
      using "1.IH" by (subst pad_key.simps) simp
  qed
qed

text \<open>
  C4. \<open>encrypt\<close> decodes the key with \<open>=\<close> characters appended up to the next multiple
  of 4 in length (at most three, none when the length is already a multiple of 4, so that
  such a key is decoded unchanged): its result is that of loading the padded key and then
  sealing the value.
\<close>

theorem encrypt_pads_key:
  "pad_key k = k @ replicate ((4 - length k mod 4) mod 4) CHR ''='' \<and>
   length (pad_key k) mod 4 = 0 \<and>
   (length k mod 4 = 0 \<longrightarrow> pad_key k = k) \<and>
   encrypt env k v st =
     (case PublicKey (encode_utf8 (k @ replicate ((4 - length k mod 4) mod 4) CHR ''='')) of
        Inl e \<Rightarrow> (Inl e, st)
      | Inr pk \<Rightarrow> seal_value env pk v st)"
proof -
  have "length k mod 4 = 0 \<longrightarrow> pad_key k = k"
    by (simp add: pad_key_eq)
  moreover have "encrypt env k v st =
     (case PublicKey (encode_utf8 (k @ replicate ((4 - length k mod 4) mod 4) CHR ''='')) of
        Inl e \<Rightarrow> (Inl e, st)
      | Inr pk \<Rightarrow> seal_value env pk v st)"
    by (simp add: encrypt_def then_do_def lift_def pad_key_eq [symmetric] split: sum.splits)
  ultimately show ?thesis
    using pad_key_eq [of k] pad_key_length [of k] by blast
qed

theorem encrypt_pads_key_witness:
  "pad_key ''abcde'' = ''abcde==='' \<and>
   length (pad_key ''abcde'') mod 4 = 0 \<and>
   length example_key mod 4 = 0 \<and>
   pad_key example_key = example_key"
proof -
  let ?env = "example_env remote_ok toy_seal"
  let ?st = "\<lparr>exchanges = [], sealed = 0\<rparr>"
  have a: "replicate ((4 - length ''abcde'' mod 4) mod 4) CHR ''='' = ''===''"
    by code_simp
  have b: "length example_key mod 4 = 0"
    by (simp add: example_key_def)
  note t = encrypt_pads_key [of "''abcde''" ?env None ?st]
  note u = encrypt_pads_key [of example_key ?env None ?st]
  have p: "pad_key ''abcde'' = ''abcde==='' "
    using t [THEN conjunct1] unfolding a by simp
  have q: "length (pad_key ''abcde'') mod 4 = 0"
    using t [THEN conjunct2, THEN conjunct1] .
  have r: "pad_key example_key = example_key"
    using u [THEN conjunct2, THEN conjunct2, THEN conjunct1] b by (rule mp)
  show ?thesis
    by (intro conjI p q b r)
qed

end
